theory Spec2Isabelle
  imports Main
begin

section \<open>JavaScript strings and arrays\<close>

text \<open>
  A JavaScript string is modelled as a \<^typ>\<open>string\<close>, one \<^typ>\<open>char\<close> per UTF-16 code
  unit; the model therefore covers the strings whose code units are below 256 (Latin-1),
  which contains every literal of the source: the degree sign of the division patterns is
  \<open>CHR 0xB0\<close>. Numbers are modelled as \<^typ>\<open>int\<close>: ordinals and indexes are integers.
\<close>

definition isSpace :: "char \<Rightarrow> bool" where
  \<comment> \<open>the characters removed by \<open>trim()\<close> and matched by \<open>\s\<close>, within Latin-1\<close>
  "isSpace c = (c \<in> set [CHR 0x09, CHR 0x0A, CHR 0x0B, CHR 0x0C, CHR 0x0D, CHR 0x20, CHR 0xA0])"

definition trim :: "string \<Rightarrow> string" where
  "trim s = rev (dropWhile isSpace (rev (dropWhile isSpace s)))"

fun startsWith :: "string \<Rightarrow> string \<Rightarrow> bool" where
  "startsWith text [] = True"
| "startsWith [] (c # pattern) = False"
| "startsWith (t # text) (c # pattern) = (t = c \<and> startsWith text pattern)"

definition at_index :: "'a list \<Rightarrow> int \<Rightarrow> 'a option" where
  \<comment> \<open>\<open>xs[i]\<close>: \<open>undefined\<close> (here \<open>None\<close>) outside \<open>0 .. length - 1\<close>\<close>
  "at_index xs i = (if 0 \<le> i \<and> i < int (length xs) then Some (xs ! nat i) else None)"

section \<open>The document tree\<close>

text \<open>
  The article is the tree that cheerio or \<open>DOMParser\<close> builds from the HTML: text nodes and
  elements with a tag name and children. Attributes play no part in navigation.
\<close>

datatype node = TextNode string | Element string "node list"

fun textContent :: "node \<Rightarrow> string" where
  "textContent (TextNode s) = s"
| "textContent (Element tag children) = concat (map textContent children)"

fun outerHTML :: "node \<Rightarrow> string" where
  \<comment> \<open>serialisation of attribute-free elements; character escaping is not modelled\<close>
  "outerHTML (TextNode s) = s"
| "outerHTML (Element tag children) =
     ''<'' @ tag @ ''>'' @ concat (map outerHTML children) @ ''</'' @ tag @ ''>''"

definition innerHTML :: "node \<Rightarrow> string" where
  "innerHTML n = (case n of TextNode s \<Rightarrow> s | Element tag children \<Rightarrow> concat (map outerHTML children))"

definition is_p :: "node \<Rightarrow> bool" where
  "is_p n = (case n of TextNode s \<Rightarrow> False | Element tag children \<Rightarrow> tag = ''p'')"

fun querySelectorAll_p :: "node \<Rightarrow> node list" where
  \<comment> \<open>\<open>scope.querySelectorAll('p')\<close>: the descendant \<open>p\<close> elements, in document order\<close>
  "querySelectorAll_p (TextNode s) = []"
| "querySelectorAll_p (Element tag children) =
     concat (map (\<lambda>c. (if is_p c then [c] else []) @ querySelectorAll_p c) children)"

text \<open>
  A cheerio selection is a list of nodes. The navigator only ever holds selections of at
  most one element: the body, one paragraph, or the empty selection \<open>$(undefined)\<close>.
\<close>

type_synonym selection = "node list"

definition find_p :: "selection \<Rightarrow> node list" where
  \<comment> \<open>\<open>scope.find('p').toArray()\<close>\<close>
  "find_p scope = concat (map querySelectorAll_p scope)"

definition wrap :: "node option \<Rightarrow> selection" where
  \<comment> \<open>\<open>this.$(x)\<close> for an element or \<open>undefined\<close>\<close>
  "wrap x = (case x of None \<Rightarrow> [] | Some n \<Rightarrow> [n])"

definition sel_text :: "selection \<Rightarrow> string" where
  \<comment> \<open>\<open>scope.text()\<close>\<close>
  "sel_text scope = concat (map textContent scope)"

definition sel_html :: "selection \<Rightarrow> string option" where
  \<comment> \<open>\<open>scope.html()\<close>: the inner HTML of the first element, \<open>null\<close> for the empty selection\<close>
  "sel_html scope = (case scope of [] \<Rightarrow> None | n # rest \<Rightarrow> Some (innerHTML n))"

section \<open>The reference AST\<close>

text \<open>
  The AST types come from the parser library (\<open>ast.js\<close>); they are modelled by the fields
  the navigators read. An atomic reference has a type tag and the optional fields \<open>num\<close>,
  \<open>index\<close>, \<open>relative\<close> and \<open>cid\<close>.
\<close>

datatype ref_type =
    R_texte | R_article
  | R_item | R_partie | R_livre | R_titre | R_sous_titre | R_chapitre | R_section
  | R_sous_section | R_paragraphe | R_sous_paragraphe | R_sous_sous_paragraphe
  | R_alinea | R_phrase
  | R_other string

datatype action_kind = CREATION | MODIFICATION | SUPPRESSION | CREATION_OU_MODIFICATION

datatype action = Action action_kind "string list"

datatype reference =
    Atom ref_type "string option" "int option" "int option" "string option"
      \<comment> \<open>type, num, index, relative, cid\<close>
  | ParentEnfant reference reference  \<comment> \<open>parent, child\<close>
  | Enumeration reference reference  \<comment> \<open>left, right\<close>
  | BoundedInterval reference reference  \<comment> \<open>first, last\<close>
  | CountedInterval reference int  \<comment> \<open>first, count\<close>
  | ReferenceEtAction reference action

section \<open>The first navigator (article-navigator.ts, cheerio)\<close>

datatype step_type = T_texte | T_article | T_division | T_portion

record NavigationStep =
  step_type :: step_type
  cid :: "string option"
  num :: "string option"
  divisionType :: "ref_type option"
  portionType :: "ref_type option"
  index :: "int option"

datatype nav_error =
    UnsupportedReferenceType reference
      \<comment> \<open>\<open>Unsupported reference type: ${ref.type}\<close>\<close>
  | DivisionNotFound NavigationStep
      \<comment> \<open>\<open>Division not found: ${JSON.stringify(step)}\<close>\<close>
  | SentenceNotFound int
      \<comment> \<open>\<open>Sentence at index ${index} not found\<close>\<close>
  | PortionNotFound NavigationStep
      \<comment> \<open>\<open>Portion not found: ${JSON.stringify(step)}\<close>\<close>

definition empty_step :: "step_type \<Rightarrow> NavigationStep" where
  "empty_step t = \<lparr>step_type = t, cid = None, num = None, divisionType = None,
     portionType = None, index = None\<rparr>"

definition is_division_type :: "ref_type \<Rightarrow> bool" where
  "is_division_type t = (t \<in> set [R_item, R_partie, R_livre, R_titre, R_sous_titre, R_chapitre,
     R_section, R_sous_section, R_paragraphe, R_sous_paragraphe, R_sous_sous_paragraphe])"

fun referenceToStep :: "reference \<Rightarrow> nav_error + NavigationStep" where
  "referenceToStep (Atom t n i r c) =
     (if t = R_texte then Inr ((empty_step T_texte)\<lparr>cid := c\<rparr>)
      else if t = R_article then Inr ((empty_step T_article)\<lparr>num := n\<rparr>)
      else if is_division_type t then
        Inr ((empty_step T_division)\<lparr>divisionType := Some t, num := n, index := i\<rparr>)
      else if t = R_alinea \<or> t = R_phrase then
        Inr ((empty_step T_portion)\<lparr>portionType := Some t, index := i, num := n\<rparr>)
      else Inl (UnsupportedReferenceType (Atom t n i r c)))"
| "referenceToStep ref = Inl (UnsupportedReferenceType ref)"

fun walkReference :: "reference \<Rightarrow> NavigationStep list \<Rightarrow> nav_error + NavigationStep list" where
  "walkReference (ParentEnfant parent child) path =
     (case walkReference parent path of
        Inl e \<Rightarrow> Inl e
      | Inr path' \<Rightarrow> walkReference child path')"
| "walkReference ref path =
     (case referenceToStep ref of Inl e \<Rightarrow> Inl e | Inr step \<Rightarrow> Inr (path @ [step]))"

definition extractNavigationPath :: "reference \<Rightarrow> nav_error + NavigationStep list" where
  "extractNavigationPath ref = walkReference ref []"

definition getDivisionPatterns :: "string \<Rightarrow> string list" where
  "getDivisionPatterns n =
     [n @ ''.-'', n @ ''. -'', n @ '' -'', n @ ''.'', n @ [CHR 0xB0], n @ '')'']"

definition text_matches :: "string list \<Rightarrow> node \<Rightarrow> bool" where
  \<comment> \<open>\<open>patterns.some(pattern => text.startsWith(pattern))\<close> on \<open>text = $(p).text().trim()\<close>\<close>
  "text_matches patterns p = list_ex (startsWith (trim (textContent p))) patterns"

fun first_match :: "string list \<Rightarrow> node list \<Rightarrow> node option" where
  \<comment> \<open>the loop \<open>for (const p of paragraphs)\<close>, returning at the first match\<close>
  "first_match patterns [] = None"
| "first_match patterns (p # paragraphs) =
     (if text_matches patterns p then Some p else first_match patterns paragraphs)"

definition truthy :: "string option \<Rightarrow> bool" where
  \<comment> \<open>\<open>if (num)\<close>: neither \<open>undefined\<close> nor the empty string\<close>
  "truthy s = (case s of None \<Rightarrow> False | Some v \<Rightarrow> v \<noteq> [])"

definition findDivision :: "selection \<Rightarrow> NavigationStep \<Rightarrow> nav_error + selection" where
  "findDivision scope step =
     (let paragraphs = find_p scope;
          found = (if truthy (num step)
                   then first_match (getDivisionPatterns (the (num step))) paragraphs
                   else None)
      in case found of
           Some p \<Rightarrow> Inr [p]
         | None \<Rightarrow>
             (case index step of
                Some i \<Rightarrow> if i \<ge> 0 then Inr (wrap (at_index paragraphs i))
                          else Inl (DivisionNotFound step)
              | None \<Rightarrow> Inl (DivisionNotFound step)))"

function splitSentences_raw :: "string \<Rightarrow> string \<Rightarrow> string list" where
  \<comment> \<open>\<open>text.split(/[.!?]\s+/)\<close>; the first argument is the piece being read, reversed\<close>
  "splitSentences_raw cur [] = [rev cur]"
| "splitSentences_raw cur (c # cs) =
     (if c \<in> set ''.!?'' \<and> cs \<noteq> [] \<and> isSpace (hd cs)
      then rev cur # splitSentences_raw [] (dropWhile isSpace cs)
      else splitSentences_raw (c # cur) cs)"
  by pat_completeness auto
termination
  by (relation "measure (\<lambda>(cur, s). length s)")
     (auto simp: le_imp_less_Suc length_dropWhile_le)

definition splitSentences :: "string \<Rightarrow> string list" where
  "splitSentences text = filter (\<lambda>s. length (trim s) > 0) (splitSentences_raw [] text)"

definition findPortion :: "selection \<Rightarrow> NavigationStep \<Rightarrow> nav_error + selection" where
  "findPortion scope step =
     (let paragraphs = find_p scope in
      if portionType step = Some R_alinea \<and> (num step = Some ''dernier'' \<or> index step = Some (-1))
      then Inr (wrap (at_index paragraphs (int (length paragraphs) - 1)))
      else if portionType step = Some R_alinea \<and> index step \<noteq> None \<and> the (index step) \<ge> 0
      then Inr (wrap (at_index paragraphs (the (index step))))
      else if portionType step = Some R_phrase \<and> index step \<noteq> None \<and> the (index step) \<ge> 0
      then
        (let sentences = splitSentences (sel_text scope);
             i = the (index step);
             sentenceIndex = (if i = 0 then 0 else i - 1)
         in case at_index sentences sentenceIndex of
              None \<Rightarrow> Inl (SentenceNotFound i)
            | Some sentence \<Rightarrow>
                if sentence = [] then Inl (SentenceNotFound i) else Inr scope)
      else Inl (PortionNotFound step))"

fun navigate_steps :: "selection \<Rightarrow> NavigationStep list \<Rightarrow> nav_error + selection" where
  \<comment> \<open>the loop of \<open>navigatePath\<close>\<close>
  "navigate_steps scope [] = Inr scope"
| "navigate_steps scope (step # path) =
     (case step_type step of
        T_texte \<Rightarrow> navigate_steps scope path
      | T_article \<Rightarrow> navigate_steps scope path
      | T_division \<Rightarrow>
          (case findDivision scope step of
             Inl e \<Rightarrow> Inl e
           | Inr scope' \<Rightarrow> navigate_steps scope' path)
      | T_portion \<Rightarrow>
          (case findPortion scope step of
             Inl e \<Rightarrow> Inl e
           | Inr scope' \<Rightarrow> navigate_steps scope' path))"

definition navigatePath :: "node \<Rightarrow> NavigationStep list \<Rightarrow> nav_error + string" where
  \<comment> \<open>the first argument is the \<open>body\<close> element; the result is \<open>scope.html() || ''\<close>\<close>
  "navigatePath body path =
     (case navigate_steps [body] path of
        Inl e \<Rightarrow> Inl e
      | Inr scope \<Rightarrow> Inr (case sel_html scope of None \<Rightarrow> [] | Some h \<Rightarrow> h))"

definition locate :: "node \<Rightarrow> reference \<Rightarrow> nav_error + string" where
  "locate body reference =
     (let ref = (case reference of ReferenceEtAction r a \<Rightarrow> r | _ \<Rightarrow> reference)
      in case extractNavigationPath ref of
           Inl e \<Rightarrow> Inl e
         | Inr path \<Rightarrow> navigatePath body path)"

section \<open>The second navigator (prototype with \<open>DOMParser\<close>)\<close>

datatype ident = IdString string | IdNumber int

datatype ordinal = O_first | O_last | O_second | O_number int

datatype proto_step_type = P_article | P_division | P_portion

record NavigationStep_proto =
  proto_type :: proto_step_type
  step_identifier :: "ident option"
  ordinal :: "ordinal option"
  relative :: "int option"

datatype proto_error =
    DivisionNotFound_proto "ident option"
      \<comment> \<open>\<open>Division ${step.identifier} not found\<close>\<close>
  | InvalidPortionOrdinal
      \<comment> \<open>\<open>Invalid portion ordinal\<close>\<close>
  | PortionAtIndexNotFound int
      \<comment> \<open>\<open>Portion at index ${targetIndex} not found\<close>\<close>

record walk_state =
  steps :: "NavigationStep_proto list"
  console :: "reference list"  \<comment> \<open>the nodes reported by \<open>console.warn\<close>\<close>

definition push_step :: "NavigationStep_proto \<Rightarrow> walk_state \<Rightarrow> walk_state" where
  "push_step step st = st\<lparr>steps := steps st @ [step]\<rparr>"

definition is_division_type_proto :: "ref_type \<Rightarrow> bool" where
  "is_division_type_proto t = (t \<in> set [R_partie, R_livre, R_titre, R_sous_titre, R_chapitre,
     R_section, R_sous_section, R_paragraphe, R_sous_paragraphe, R_sous_sous_paragraphe])"

fun walkReference_proto :: "reference \<Rightarrow> walk_state \<Rightarrow> walk_state" where
  "walkReference_proto (Atom t n i r c) st =
     (if t = R_article then
        push_step \<lparr>proto_type = P_article, step_identifier = map_option IdString n,
                   ordinal = None, relative = r\<rparr> st
      else if is_division_type_proto t then
        push_step \<lparr>proto_type = P_division, step_identifier = map_option IdString n,
                   ordinal = None, relative = r\<rparr> st
      else if t = R_alinea \<or> t = R_phrase \<or> t = R_item then
        push_step \<lparr>proto_type = P_portion, step_identifier = map_option IdString n,
                   ordinal = None, relative = r\<rparr> st
      else st\<lparr>console := console st @ [Atom t n i r c]\<rparr>)"
| "walkReference_proto (ParentEnfant parent child) st =
     walkReference_proto child (walkReference_proto parent st)"
| "walkReference_proto (Enumeration left right) st = walkReference_proto left st"
| "walkReference_proto (BoundedInterval first lastRef) st = walkReference_proto first st"
| "walkReference_proto (CountedInterval first count) st = walkReference_proto first st"
| "walkReference_proto (ReferenceEtAction ref a) st = walkReference_proto ref st"

definition convertAstToNavigationPath :: "reference \<Rightarrow> NavigationStep_proto list" where
  \<comment> \<open>a \<open>NavigationPath\<close> has the single field \<open>steps\<close>\<close>
  "convertAstToNavigationPath reference =
     steps (walkReference_proto reference \<lparr>steps = [], console = []\<rparr>)"

function string_of_nat :: "nat \<Rightarrow> string" where
  "string_of_nat n =
     (if n < 10 then [char_of (48 + n)]
      else string_of_nat (n div 10) @ [char_of (48 + n mod 10)])"
  by pat_completeness auto
termination
  by (relation "measure id") auto

definition String :: "ident \<Rightarrow> string" where
  \<comment> \<open>\<open>String(identifier)\<close>, for a string or an integer\<close>
  "String ident =
     (case ident of
        IdString s \<Rightarrow> s
      | IdNumber n \<Rightarrow> if n < 0 then ''-'' @ string_of_nat (nat (- n)) else string_of_nat (nat n))"

definition falsy :: "ident option \<Rightarrow> bool" where
  \<comment> \<open>\<open>!identifier\<close>: \<open>undefined\<close>, the empty string or the number 0\<close>
  "falsy ident = (ident = None \<or> ident = Some (IdString []) \<or> ident = Some (IdNumber 0))"

definition getDivisionPatterns_proto :: "ident option \<Rightarrow> string list" where
  "getDivisionPatterns_proto ident =
     (if falsy ident then []
      else let n = String (the ident)
           in [n @ ''.-'', n @ ''. -'', n @ '' -'', n @ ''.'', n @ [CHR 0xB0]])"

definition findDivision_proto :: "node \<Rightarrow> NavigationStep_proto \<Rightarrow> proto_error + node" where
  "findDivision_proto scope step =
     (let paragraphs = querySelectorAll_p scope;
          patterns = getDivisionPatterns_proto (step_identifier step)
      in case first_match patterns paragraphs of
           Some p \<Rightarrow> Inr p
         | None \<Rightarrow> Inl (DivisionNotFound_proto (step_identifier step)))"

definition targetIndex :: "node list \<Rightarrow> NavigationStep_proto \<Rightarrow> int option" where
  \<comment> \<open>the \<open>if\<close> chain of \<open>findPortion\<close>; \<open>None\<close> where it throws \<open>Invalid portion ordinal\<close>\<close>
  "targetIndex paragraphs step =
     (case relative step of
        Some r \<Rightarrow> Some r
      | None \<Rightarrow>
          (case ordinal step of
             Some O_last \<Rightarrow> Some (int (length paragraphs) - 1)
           | Some O_first \<Rightarrow> Some 0
           | Some O_second \<Rightarrow> Some 1
           | Some (O_number n) \<Rightarrow> Some (n - 1)
           | None \<Rightarrow> None))"

definition findPortion_proto :: "node \<Rightarrow> NavigationStep_proto \<Rightarrow> proto_error + node" where
  "findPortion_proto scope step =
     (let paragraphs = querySelectorAll_p scope
      in case targetIndex paragraphs step of
           None \<Rightarrow> Inl InvalidPortionOrdinal
         | Some i \<Rightarrow>
             (case at_index paragraphs i of
                None \<Rightarrow> Inl (PortionAtIndexNotFound i)
              | Some p \<Rightarrow> Inr p))"

definition navigateStep :: "node \<Rightarrow> NavigationStep_proto \<Rightarrow> proto_error + node" where
  "navigateStep scope step =
     (case proto_type step of
        P_division \<Rightarrow> findDivision_proto scope step
      | P_portion \<Rightarrow> findPortion_proto scope step
      | P_article \<Rightarrow> Inr scope)"

fun locate_proto :: "node \<Rightarrow> NavigationStep_proto list \<Rightarrow> proto_error + node" where
  \<comment> \<open>the first argument is \<open>current\<close>, initially the body of the article\<close>
  "locate_proto current [] = Inr current"
| "locate_proto current (step # path) =
     (case navigateStep current step of
        Inl e \<Rightarrow> Inl e
      | Inr next \<Rightarrow> locate_proto next path)"

section \<open>Parsing one modification (article-navigator.ts)\<close>

text \<open>
  The parsers \<open>reference\<close> and \<open>action\<close> belong to the parser library and are parameters
  here: functions from the text of a fresh \<open>TextParserContext\<close> to a result, \<open>None\<close> for
  a failed parse. A failed \<open>reference\<close> leaves the cursor where it was, so \<open>action\<close> reads
  the same text. The \<open>reference\<close> parser returns a reference or a \<open>reference_et_action\<close>.
\<close>

record ParsedModification =
  pm_action :: action
  pm_reference :: "reference option"
  targetPath :: "NavigationStep_proto list option"

definition parseModification ::
  "(string \<Rightarrow> reference option) \<Rightarrow> (string \<Rightarrow> action option) \<Rightarrow> string
     \<Rightarrow> ParsedModification option" where
  "parseModification reference_parser action_parser text =
     (case reference_parser text of
        Some (ReferenceEtAction parsedReference parsedAction) \<Rightarrow>
          Some \<lparr>pm_action = parsedAction, pm_reference = Some parsedReference,
                targetPath = Some (convertAstToNavigationPath parsedReference)\<rparr>
      | Some other \<Rightarrow> None  \<comment> \<open>\<open>Unexpected parse result type\<close>: no \<open>action\<close> field\<close>
      | None \<Rightarrow>
          (case action_parser text of
             None \<Rightarrow> None  \<comment> \<open>\<open>Failed to parse modification\<close>\<close>
           | Some parsedAction \<Rightarrow>
               Some \<lparr>pm_action = parsedAction, pm_reference = None, targetPath = None\<rparr>))"

section \<open>Batch extraction\<close>

text \<open>
  The input is the list of \<open>li.assnatFPFprojetloiartexte\<close> elements of the project, in
  document order. Of each item the extractors read its text content and its first
  \<open>a.lien_article_externe\<close> descendant, if any, with that link's \<open>href\<close> and text.
\<close>

record link =
  href :: "string option"
  link_text :: string

record li_item =
  item_text :: string
  item_link :: "link option"

definition isDigit :: "char \<Rightarrow> bool" where
  "isDigit c = (c \<in> set ''0123456789'')"

fun match_LEGIARTI :: "string \<Rightarrow> string option" where
  \<comment> \<open>\<open>href.match(/LEGIARTI\d+/)\<close>: the leftmost match, with all the digits that follow\<close>
  "match_LEGIARTI [] = None"
| "match_LEGIARTI (c # cs) =
     (if startsWith (c # cs) ''LEGIARTI'' \<and> takeWhile isDigit (drop 8 (c # cs)) \<noteq> []
      then Some (''LEGIARTI'' @ takeWhile isDigit (drop 8 (c # cs)))
      else match_LEGIARTI cs)"

definition extractArticleId :: "string option \<Rightarrow> string" where
  "extractArticleId h =
     (case h of
        None \<Rightarrow> []
      | Some s \<Rightarrow> (case match_LEGIARTI s of None \<Rightarrow> [] | Some m \<Rightarrow> m))"

record ModificationBlock =
  block_id :: string
  articleId :: string
  articleTitle :: string
  rawText :: string
  ast :: "ParsedModification option"

fun forEach_item ::
  "(string \<Rightarrow> ParsedModification option) \<Rightarrow> nat \<Rightarrow> li_item list \<Rightarrow> ModificationBlock list
     \<Rightarrow> ModificationBlock list" where
  \<comment> \<open>\<open>items.forEach((item, index) => ...)\<close> from index \<open>idx\<close> on, pushing onto \<open>blocks\<close>\<close>
  "forEach_item parse idx [] blocks = blocks"
| "forEach_item parse idx (item # items) blocks =
     forEach_item parse (Suc idx) items
       (case item_link item of
          Some l \<Rightarrow>
            blocks @ [\<lparr>block_id = ''mod-'' @ string_of_nat idx,
                        articleId = extractArticleId (href l),
                        articleTitle = link_text l,
                        rawText = item_text item,
                        ast = parse (item_text item)\<rparr>]
        | None \<Rightarrow> blocks)"

definition extractModificationsFromProject ::
  "(string \<Rightarrow> reference option) \<Rightarrow> (string \<Rightarrow> action option) \<Rightarrow> li_item list
     \<Rightarrow> ModificationBlock list" where
  "extractModificationsFromProject reference_parser action_parser items =
     forEach_item (parseModification reference_parser action_parser) 0 items []"

subsection \<open>The draft of the getting-started guide\<close>

record 'a ModificationBlock_guide =
  guide_id :: string
  guide_articleId :: string
  guide_rawText :: string
  guide_ast :: "'a option"

fun each_guide ::
  "(string \<Rightarrow> 'a option) \<Rightarrow> nat \<Rightarrow> li_item list \<Rightarrow> 'a ModificationBlock_guide list
     \<Rightarrow> 'a ModificationBlock_guide list" where
  "each_guide modification idx [] blocks = blocks"
| "each_guide modification idx (item # items) blocks =
     each_guide modification (Suc idx) items
       (blocks @ [\<lparr>guide_id = ''mod-'' @ string_of_nat idx,
                   guide_articleId =
                     extractArticleId (case item_link item of None \<Rightarrow> None | Some l \<Rightarrow> href l),
                   guide_rawText = item_text item,
                   guide_ast = modification (item_text item)\<rparr>])"

definition extractModificationsFromProject_guide ::
  "(string \<Rightarrow> 'a option) \<Rightarrow> li_item list \<Rightarrow> 'a ModificationBlock_guide list" where
  "extractModificationsFromProject_guide modification items = each_guide modification 0 items []"

subsection \<open>The draft of the strategy note\<close>

record 'a ModificationBlock_strategy =
  strategy_id :: string
  strategy_rawText :: string
  strategy_ast :: 'a

fun forEach_strategy ::
  "(string \<Rightarrow> 'a option) \<Rightarrow> nat \<Rightarrow> li_item list \<Rightarrow> 'a ModificationBlock_strategy list
     \<Rightarrow> 'a ModificationBlock_strategy list" where
  "forEach_strategy modification idx [] blocks = blocks"
| "forEach_strategy modification idx (item # items) blocks =
     forEach_strategy modification (Suc idx) items
       (case modification (item_text item) of
          Some parsed \<Rightarrow>
            blocks @ [\<lparr>strategy_id = ''mod-'' @ string_of_nat idx,
                        strategy_rawText = item_text item,
                        strategy_ast = parsed\<rparr>]
        | None \<Rightarrow> blocks)"

definition extractModificationsFromProject_strategy ::
  "(string \<Rightarrow> 'a option) \<Rightarrow> li_item list \<Rightarrow> 'a ModificationBlock_strategy list" where
  "extractModificationsFromProject_strategy modification items =
     forEach_strategy modification 0 items []"

section \<open>Parsed nodes and their positions\<close>

record position =
  start :: nat
  stop :: nat

text \<open>
  The nodes built by the parser library are modelled by their kind, their position and
  their sub-nodes: atomic nodes (text, article, division, portion, citation), parent-child
  pairs, enumerations, intervals, actions with their citations, and a reference paired
  with its action.
\<close>

datatype ast_node =
    AtomicNode position
  | ParentChildNode position ast_node ast_node  \<comment> \<open>parent, child\<close>
  | EnumerationNode position "ast_node list"
  | BoundedIntervalNode position ast_node ast_node  \<comment> \<open>first, last\<close>
  | CountedIntervalNode position ast_node int  \<comment> \<open>first, count\<close>
  | ActionNode position "ast_node list"  \<comment> \<open>the citations\<close>
  | ReferenceAndActionNode position ast_node ast_node  \<comment> \<open>reference, action\<close>

fun position_of :: "ast_node \<Rightarrow> position" where
  "position_of (AtomicNode p) = p"
| "position_of (ParentChildNode p parent child) = p"
| "position_of (EnumerationNode p members) = p"
| "position_of (BoundedIntervalNode p firstRef lastRef) = p"
| "position_of (CountedIntervalNode p firstRef n) = p"
| "position_of (ActionNode p citations) = p"
| "position_of (ReferenceAndActionNode p ref act) = p"


type_synonym 'a TextParser = "string \<Rightarrow> nat \<Rightarrow> ('a \<times> nat) option"



section \<open>The \<open>modification\<close> parser of the getting-started guide\<close>

definition chain ::
  "'a TextParser \<Rightarrow> 'b TextParser \<Rightarrow> 'c TextParser \<Rightarrow> ('a \<Rightarrow> 'b \<Rightarrow> 'c \<Rightarrow> 'd) \<Rightarrow> 'd TextParser" where
  \<comment> \<open>Modelled from the spec: the combinator \<open>chain\<close> of the parser library is not in the
      sources. This is the spec's \<open>sequence([p1..pn], combine)\<close> for three parsers: all must
      succeed in order, each starting where the one before stopped; on any failure the
      whole sequence fails at the position before \<open>p1\<close>.\<close>
  "chain p1 p2 p3 combine text offset =
     (case p1 text offset of
        None \<Rightarrow> None
      | Some (r0, offset1) \<Rightarrow>
          (case p2 text offset1 of
             None \<Rightarrow> None
           | Some (r1, offset2) \<Rightarrow>
               (case p3 text offset2 of
                  None \<Rightarrow> None
                | Some (r2, offset3) \<Rightarrow> Some (combine r0 r1 r2, offset3))))"

definition optional :: "'a TextParser \<Rightarrow> 'a option TextParser" where
  \<comment> \<open>Modelled from the spec: the combinator \<open>optional\<close> of the parser library is not in
      the sources. \<open>optional(p, default)\<close> succeeds with the default, here \<open>null\<close>, if \<open>p\<close>
      fails, without consuming input.\<close>
  "optional p text offset =
     (case p text offset of
        None \<Rightarrow> Some (None, offset)
      | Some (r, offset') \<Rightarrow> Some (Some r, offset'))"

record TextAstModification =
  target :: ast_node
  mod_action :: ast_node
  newContent :: "ast_node option"
  mod_position :: position

definition modification_value ::
  "ast_node \<Rightarrow> ast_node \<Rightarrow> ast_node option \<Rightarrow> TextAstModification" where
  \<comment> \<open>the \<open>value\<close> callback, on \<open>results[0]\<close>, \<open>results[1]\<close> and \<open>results[2]\<close>\<close>
  "modification_value r0 r1 r2 =
     \<lparr>target = r0, mod_action = r1, newContent = r2,
      mod_position =
        \<lparr>start = start (position_of r0),
         stop = (case r2 of
                   Some c \<Rightarrow> stop (position_of c)
                 | None \<Rightarrow> stop (position_of r1))\<rparr>\<rparr>"

definition modification ::
  "ast_node TextParser \<Rightarrow> ast_node TextParser \<Rightarrow> ast_node TextParser
     \<Rightarrow> TextAstModification TextParser" where
  "modification reference_parser action_parser citation =
     chain reference_parser action_parser (optional citation) modification_value"

subsection \<open>The position invariant\<close>





section \<open>Ordinal words\<close>

definition normalizeOrdinal :: "string \<Rightarrow> int option" where
  \<comment> \<open>Modelled from the spec: the reference grammar of the parser library is not in the
      sources. Symbolic words map to integers at parse time: premier and its feminine form to 1,
      second or seconde to 2, dernier and its feminine form to the sentinel -1; bare numerals parse
      directly.\<close>
  "normalizeOrdinal w =
     (if w = ''premier'' \<or> w = ''premi'' @ [CHR 0xE8] @ ''re'' then Some 1
      else if w = ''second'' \<or> w = ''seconde'' then Some 2
      else if w = ''dernier'' \<or> w = ''derni'' @ [CHR 0xE8] @ ''re'' then Some (- 1)
      else if w \<noteq> [] \<and> list_all isDigit w
      then Some (int (foldl (\<lambda>acc c. 10 * acc + (of_char c - 48)) 0 w))
      else None)"

section \<open>Example inputs\<close>

definition scenario_document :: node where
  \<comment> \<open>the body of an article of four paragraphs, the third one starting division II\<close>
  "scenario_document = Element ''body''
     [Element ''p'' [TextNode ''I.- Premiere section''],
      Element ''p'' [TextNode ''Texte de la premiere section.''],
      Element ''p'' [TextNode ''II.- Deuxieme section''],
      Element ''p'' [TextNode ''Dernier alinea.'']]"

definition step_II :: NavigationStep where
  "step_II =
     (empty_step T_division)\<lparr>divisionType := Some R_item, num := Some ''II'', index := Some 2\<rparr>"

definition reference_II_dernier :: reference where
  \<comment> \<open>the AST of "dernier alinea du II", as in \<open>exemple()\<close>\<close>
  "reference_II_dernier =
     ParentEnfant (Atom R_item (Some ''II'') (Some 2) None None)
                  (Atom R_alinea (Some ''dernier'') (Some (- 1)) None None)"

definition pstep_II :: NavigationStep_proto where
  "pstep_II = \<lparr>proto_type = P_division, step_identifier = Some (IdString ''II''),
     ordinal = None, relative = None\<rparr>"

definition pstep_last :: NavigationStep_proto where
  \<comment> \<open>the step "last paragraph" of the second navigator\<close>
  "pstep_last = \<lparr>proto_type = P_portion, step_identifier = None, ordinal = Some O_last,
     relative = None\<rparr>"

definition alinea_step :: "int \<Rightarrow> NavigationStep" where
  "alinea_step n = (empty_step T_portion)\<lparr>portionType := Some R_alinea, index := Some n\<rparr>"

definition sentence_document :: node where
  "sentence_document =
     Element ''body'' [Element ''p'' [TextNode ''Premier alinea. Premiere phrase. Seconde phrase.'']]"

definition phrase_step :: "int \<Rightarrow> NavigationStep" where
  "phrase_step n = (empty_step T_portion)\<lparr>portionType := Some R_phrase, index := Some n\<rparr>"



definition pstep_IV :: NavigationStep_proto where
  "pstep_IV = \<lparr>proto_type = P_division, step_identifier = Some (IdString ''IV''),
     ordinal = None, relative = None\<rparr>"

definition enumeration_I_II :: reference where
  \<comment> \<open>the AST of "parties I et II"\<close>
  "enumeration_I_II =
     Enumeration (Atom R_partie (Some ''I'') None None None)
                 (Atom R_partie (Some ''II'') None None None)"

definition item_without_link :: li_item where
  "item_without_link =
     \<lparr>item_text = ''Le A du IV est remplace par trois alineas'', item_link = None\<rparr>"

definition item_with_link :: li_item where
  "item_with_link =
     \<lparr>item_text = ''Texte sans reference'',
      item_link = Some \<lparr>href = Some ''https://tricoteuses.fr/legifrance/articles/LEGIARTI000051200465'',
                        link_text = ''article 224''\<rparr>\<rparr>"




subsection \<open>The indexes of an AST\<close>

fun ast_indexes :: "reference \<Rightarrow> int option list" where
  \<comment> \<open>the \<open>index\<close> fields of the atoms of nested parent-child pairs, parent first; only
      divisions and portions pass their index on to a step\<close>
  "ast_indexes (Atom t n i r c) =
     [if is_division_type t \<or> t = R_alinea \<or> t = R_phrase then i else None]"
| "ast_indexes (ParentEnfant parent child) = ast_indexes parent @ ast_indexes child"
| "ast_indexes ref = []"

section \<open>Auxiliary facts\<close>

lemmas nav_defs = locate_def extractNavigationPath_def navigatePath_def empty_step_def
  is_division_type_def findDivision_def findPortion_def find_p_def is_p_def truthy_def
  getDivisionPatterns_def text_matches_def trim_def isSpace_def wrap_def at_index_def
  sel_html_def sel_text_def innerHTML_def splitSentences_def

lemma startsWith_iff: "startsWith t p \<longleftrightarrow> (\<exists>rest. t = p @ rest)"
  by (induction t p rule: startsWith.induct) auto

lemma text_matches_iff:
  "text_matches patterns p \<longleftrightarrow> (\<exists>pat\<in>set patterns. \<exists>rest. trim (textContent p) = pat @ rest)"
  by (simp add: text_matches_def list_ex_iff startsWith_iff)

lemma first_match_split:
  "\<exists>p\<in>set paragraphs. text_matches patterns p \<Longrightarrow>
     \<exists>pre p post. paragraphs = pre @ p # post \<and> text_matches patterns p \<and>
       (\<forall>q\<in>set pre. \<not> text_matches patterns q) \<and> first_match patterns paragraphs = Some p"
proof (induction paragraphs)
  case Nil
  then show ?case by simp
next
  case (Cons a paragraphs)
  show ?case
  proof (cases "text_matches patterns a")
    case True
    then have "a # paragraphs = [] @ a # paragraphs \<and> text_matches patterns a \<and>
       (\<forall>q\<in>set []. \<not> text_matches patterns q) \<and> first_match patterns (a # paragraphs) = Some a"
      by simp
    then show ?thesis by blast
  next
    case False
    with Cons.prems have "\<exists>p\<in>set paragraphs. text_matches patterns p" by auto
    from Cons.IH[OF this] obtain pre p post where
      h: "paragraphs = pre @ p # post" "text_matches patterns p"
         "\<forall>q\<in>set pre. \<not> text_matches patterns q" "first_match patterns paragraphs = Some p"
      by blast
    with False have "a # paragraphs = (a # pre) @ p # post \<and> text_matches patterns p \<and>
       (\<forall>q\<in>set (a # pre). \<not> text_matches patterns q) \<and>
       first_match patterns (a # paragraphs) = Some p"
      by simp
    then show ?thesis by blast
  qed
qed

lemma splitSentences_nonempty: "s \<in> set (splitSentences t) \<Longrightarrow> s \<noteq> []"
  by (auto simp: splitSentences_def trim_def)







lemma forEach_item_fields:
  "map rawText (forEach_item parse k items acc) =
     map rawText acc @ map item_text (filter (\<lambda>it. item_link it \<noteq> None) items) \<and>
   map ast (forEach_item parse k items acc) =
     map ast acc @ map (\<lambda>it. parse (item_text it)) (filter (\<lambda>it. item_link it \<noteq> None) items) \<and>
   map articleId (forEach_item parse k items acc) =
     map articleId acc @
     map (\<lambda>it. extractArticleId (href (the (item_link it))))
       (filter (\<lambda>it. item_link it \<noteq> None) items) \<and>
   map articleTitle (forEach_item parse k items acc) =
     map articleTitle acc @
     map (\<lambda>it. link_text (the (item_link it))) (filter (\<lambda>it. item_link it \<noteq> None) items)"
proof (induction items arbitrary: k acc)
  case Nil
  show ?case by simp
next
  case (Cons item items)
  show ?case
  proof (cases "item_link item")
    case None
    with Cons show ?thesis by simp
  next
    case (Some l)
    with Cons show ?thesis by simp
  qed
qed

lemma forEach_item_ids:
  "map block_id (forEach_item parse k items acc) =
     map block_id acc @
     map (\<lambda>(i, it). ''mod-'' @ string_of_nat i)
       (filter (\<lambda>(i, it). item_link it \<noteq> None) (zip [k..<k + length items] items))"
proof (induction items arbitrary: k acc)
  case Nil
  show ?case by simp
next
  case (Cons item items)
  have upt: "[k..<k + length (item # items)] = k # [Suc k..<Suc k + length items]"
    by (subst upt_rec) simp
  show ?case
  proof (cases "item_link item")
    case None
    with Cons[of "Suc k"] upt show ?thesis by simp
  next
    case (Some l)
    with Cons[of "Suc k"] upt show ?thesis by simp
  qed
qed

lemma each_guide_fields:
  "map guide_rawText (each_guide m k items acc) = map guide_rawText acc @ map item_text items \<and>
   map guide_ast (each_guide m k items acc) =
     map guide_ast acc @ map (\<lambda>it. m (item_text it)) items"
  by (induction items arbitrary: k acc) simp_all

lemma forEach_strategy_fields:
  "map strategy_rawText (forEach_strategy m k items acc) =
     map strategy_rawText acc @ map item_text (filter (\<lambda>it. m (item_text it) \<noteq> None) items)"
proof (induction items arbitrary: k acc)
  case Nil
  show ?case by simp
next
  case (Cons item items)
  show ?case
  proof (cases "m (item_text item)")
    case None
    with Cons show ?thesis by simp
  next
    case (Some parsed)
    with Cons show ?thesis by simp
  qed
qed

lemma each_guide_ids:
  "map guide_id (each_guide m k items acc) =
     map guide_id acc @ map (\<lambda>i. ''mod-'' @ string_of_nat i) [k..<k + length items] \<and>
   map guide_articleId (each_guide m k items acc) =
     map guide_articleId acc @
     map (\<lambda>it. extractArticleId (case item_link it of None \<Rightarrow> None | Some l \<Rightarrow> href l)) items"
proof (induction items arbitrary: k acc)
  case Nil
  show ?case by simp
next
  case (Cons item items)
  have upt: "[k..<k + length (item # items)] = k # [Suc k..<Suc k + length items]"
    by (subst upt_rec) simp
  from Cons[of "Suc k"] upt show ?case by simp
qed

lemma forEach_strategy_ids:
  "map strategy_id (forEach_strategy m k items acc) =
     map strategy_id acc @
     map (\<lambda>(i, it). ''mod-'' @ string_of_nat i)
       (filter (\<lambda>(i, it). m (item_text it) \<noteq> None) (zip [k..<k + length items] items)) \<and>
   map strategy_ast (forEach_strategy m k items acc) =
     map strategy_ast acc @
     map (\<lambda>it. the (m (item_text it))) (filter (\<lambda>it. m (item_text it) \<noteq> None) items)"
proof (induction items arbitrary: k acc)
  case Nil
  show ?case by simp
next
  case (Cons item items)
  have upt: "[k..<k + length (item # items)] = k # [Suc k..<Suc k + length items]"
    by (subst upt_rec) simp
  show ?case
  proof (cases "m (item_text item)")
    case None
    with Cons[of "Suc k"] upt show ?thesis by simp
  next
    case (Some parsed)
    with Cons[of "Suc k"] upt show ?thesis by simp
  qed
qed

lemma walkReference_indexes:
  "walkReference ref path = Inr path' \<Longrightarrow> map index path' = map index path @ ast_indexes ref"
proof (induction ref arbitrary: path path')
  case (Atom t n i r c)
  then show ?case
    by (auto simp: empty_step_def is_division_type_def split: if_splits)
next
  case (ParentEnfant parent child)
  from ParentEnfant.prems obtain mid where
    m: "walkReference parent path = Inr mid" "walkReference child mid = Inr path'"
    by (auto split: sum.splits)
  from ParentEnfant.IH(1)[OF m(1)] ParentEnfant.IH(2)[OF m(2)] show ?case by simp
qed simp_all

lemma walkReference_proto_ordinal:
  "list_all (\<lambda>s. ordinal s = None) (steps st) \<Longrightarrow>
     list_all (\<lambda>s. ordinal s = None) (steps (walkReference_proto ref st))"
  by (induction ref arbitrary: st) (simp_all add: push_step_def)




section \<open>Scoped resolution after a division step\<close>

text \<open>
  Claim C1 expects that, after the division step for II, the step "last paragraph" selects
  the last paragraph of division II. The first navigator does not: the division step makes
  the matched \<open>p\<close> element itself the scope, that element has no \<open>p\<close> descendant, so the
  portion step selects \<open>$(undefined)\<close> and \<open>locate\<close> returns the empty string. The second
  navigator narrows the scope in the same way and fails at the portion step. The theorem
  evaluates both on the four-paragraph document.
\<close>

theorem locate_division_then_last_alinea:
  "extractNavigationPath reference_II_dernier =
     Inr [step_II, (empty_step T_portion)\<lparr>portionType := Some R_alinea, index := Some (- 1),
                     num := Some ''dernier''\<rparr>] \<and>
   findDivision [scenario_document] step_II = Inr [Element ''p'' [TextNode ''II.- Deuxieme section'']] \<and>
   locate scenario_document reference_II_dernier = Inr [] \<and>
   locate_proto scenario_document [pstep_II, pstep_last] = Inl (PortionAtIndexNotFound (- 1))"
  by (simp add: scenario_document_def reference_II_dernier_def step_II_def pstep_II_def
      pstep_last_def navigateStep_def findDivision_proto_def findPortion_proto_def
      targetIndex_def getDivisionPatterns_proto_def falsy_def String_def nav_defs)

section \<open>Sentence steps\<close>

text \<open>
  Claim C2 expects a sentence step to return the span of the selected sentence, never the
  whole block. The first navigator finds the sentence and then returns the scope it was
  given, as its own comment says ("for now, return the whole scope; a real implementation
  should mark just that sentence"). The theorem evaluates the navigator on the second
  sentence of a paragraph of three: the result is the content of the whole paragraph, not
  the sentence "Premiere phrase".
\<close>

theorem sentence_step_whole_block:
  "navigatePath sentence_document [alinea_step 0, phrase_step 2] =
     Inr ''Premier alinea. Premiere phrase. Seconde phrase.'' \<and>
   splitSentences ''Premier alinea. Premiere phrase. Seconde phrase.'' =
     [''Premier alinea'', ''Premiere phrase'', ''Seconde phrase.'']"
  by (simp add: sentence_document_def alinea_step_def phrase_step_def nav_defs)

text \<open>
  The same on every input: for a sentence step with a 1-based ordinal \<open>n \<ge> 1\<close>, the
  navigator checks that the scope's text has at least \<open>n\<close> sentences; if so it returns
  the scope unchanged, otherwise it fails with "Sentence at index n not found".
\<close>

theorem sentence_step_returns_scope:
  "portionType step = Some R_phrase \<Longrightarrow> index step = Some n \<Longrightarrow> 1 \<le> n \<Longrightarrow>
   findPortion scope step =
     (if n \<le> int (length (splitSentences (sel_text scope))) then Inr scope
      else Inl (SentenceNotFound n))"
proof -
  assume a: "portionType step = Some R_phrase" "index step = Some n" "1 \<le> n"
  show ?thesis
  proof (cases "n \<le> int (length (splitSentences (sel_text scope)))")
    case True
    with a(3) have "nat (n - 1) < length (splitSentences (sel_text scope))" by linarith
    then have "splitSentences (sel_text scope) ! nat (n - 1) \<noteq> []"
      using splitSentences_nonempty nth_mem by blast
    with a True show ?thesis
      by (simp add: findPortion_def at_index_def Let_def)
  next
    case False
    with a show ?thesis
      by (simp add: findPortion_def at_index_def Let_def)
  qed
qed

text \<open>An instance: the second sentence of the three-sentence paragraph.\<close>

theorem sentence_step_returns_scope_witness:
  "portionType ((empty_step T_portion)\<lparr>portionType := Some R_phrase, index := Some 2\<rparr>) = Some R_phrase \<and>
   (1::int) \<le> 2 \<and>
   findPortion [sentence_document] ((empty_step T_portion)\<lparr>portionType := Some R_phrase, index := Some 2\<rparr>)
     = Inr [sentence_document]"
  using sentence_step_returns_scope
    [of "(empty_step T_portion)\<lparr>portionType := Some R_phrase, index := Some 2\<rparr>" 2 "[sentence_document]"]
  by (simp add: sentence_document_def empty_step_def sel_text_def splitSentences_def trim_def isSpace_def)

section \<open>Paragraph steps\<close>

text \<open>
  Claim C3 expects ordinal \<open>n\<close> to select the child at offset \<open>n - 1\<close> and an out-of-range
  ordinal to fail. The first navigator uses the index as the array offset: index 1 selects
  the second paragraph, and index 4 of four paragraphs selects \<open>$(undefined)\<close>, so that
  navigation returns the empty string instead of failing.
\<close>

theorem alinea_index_used_as_offset:
  "navigatePath scenario_document [alinea_step 1] = Inr ''Texte de la premiere section.'' \<and>
   navigatePath scenario_document [alinea_step 4] = Inr []"
  by (simp add: scenario_document_def alinea_step_def nav_defs)

section \<open>Division steps\<close>

text \<open>
  Claim C5: if some paragraph of the scope has a text (trimmed, as the navigators read it)
  that starts with one of the accepted surface forms of the step's marker, the division
  step succeeds and returns the first such paragraph in document order: no paragraph before
  it matches. This holds for the first navigator, where a marker is a non-empty \<open>num\<close>,
  and for the second, where the surface forms of an absent marker are none.
\<close>

theorem division_first_match:
  "(num step = Some m \<and> m \<noteq> [] \<and>
      (\<exists>p\<in>set (find_p scope). \<exists>pat\<in>set (getDivisionPatterns m).
         \<exists>rest. trim (textContent p) = pat @ rest)
    \<longrightarrow> (\<exists>pre p post. find_p scope = pre @ p # post \<and>
           (\<exists>pat\<in>set (getDivisionPatterns m). \<exists>rest. trim (textContent p) = pat @ rest) \<and>
           (\<forall>q\<in>set pre. \<not> (\<exists>pat\<in>set (getDivisionPatterns m).
                               \<exists>rest. trim (textContent q) = pat @ rest)) \<and>
           findDivision scope step = Inr [p]))
   \<and>
   ((\<exists>p\<in>set (querySelectorAll_p current).
        \<exists>pat\<in>set (getDivisionPatterns_proto (step_identifier pstep)).
          \<exists>rest. trim (textContent p) = pat @ rest)
    \<longrightarrow> (\<exists>pre p post. querySelectorAll_p current = pre @ p # post \<and>
           (\<exists>pat\<in>set (getDivisionPatterns_proto (step_identifier pstep)).
              \<exists>rest. trim (textContent p) = pat @ rest) \<and>
           (\<forall>q\<in>set pre. \<not> (\<exists>pat\<in>set (getDivisionPatterns_proto (step_identifier pstep)).
                               \<exists>rest. trim (textContent q) = pat @ rest)) \<and>
           findDivision_proto current pstep = Inr p))"
proof (intro conjI impI)
  assume a: "num step = Some m \<and> m \<noteq> [] \<and>
      (\<exists>p\<in>set (find_p scope). \<exists>pat\<in>set (getDivisionPatterns m).
         \<exists>rest. trim (textContent p) = pat @ rest)"
  then have "\<exists>p\<in>set (find_p scope). text_matches (getDivisionPatterns m) p"
    by (simp add: text_matches_iff)
  from first_match_split[OF this] obtain pre p post where
    h: "find_p scope = pre @ p # post" "text_matches (getDivisionPatterns m) p"
       "\<forall>q\<in>set pre. \<not> text_matches (getDivisionPatterns m) q"
       "first_match (getDivisionPatterns m) (find_p scope) = Some p"
    by blast
  from a h(4) have "findDivision scope step = Inr [p]"
    by (simp add: findDivision_def truthy_def)
  with h(1,2,3) show "\<exists>pre p post. find_p scope = pre @ p # post \<and>
           (\<exists>pat\<in>set (getDivisionPatterns m). \<exists>rest. trim (textContent p) = pat @ rest) \<and>
           (\<forall>q\<in>set pre. \<not> (\<exists>pat\<in>set (getDivisionPatterns m).
                               \<exists>rest. trim (textContent q) = pat @ rest)) \<and>
           findDivision scope step = Inr [p]"
    unfolding text_matches_iff by blast
next
  let ?ps = "getDivisionPatterns_proto (step_identifier pstep)"
  assume "\<exists>p\<in>set (querySelectorAll_p current). \<exists>pat\<in>set ?ps. \<exists>rest. trim (textContent p) = pat @ rest"
  then have "\<exists>p\<in>set (querySelectorAll_p current). text_matches ?ps p"
    by (simp add: text_matches_iff)
  from first_match_split[OF this] obtain pre p post where
    h: "querySelectorAll_p current = pre @ p # post" "text_matches ?ps p"
       "\<forall>q\<in>set pre. \<not> text_matches ?ps q"
       "first_match ?ps (querySelectorAll_p current) = Some p"
    by blast
  from h(4) have "findDivision_proto current pstep = Inr p"
    by (simp add: findDivision_proto_def)
  with h(1,2,3) show "\<exists>pre p post. querySelectorAll_p current = pre @ p # post \<and>
           (\<exists>pat\<in>set ?ps. \<exists>rest. trim (textContent p) = pat @ rest) \<and>
           (\<forall>q\<in>set pre. \<not> (\<exists>pat\<in>set ?ps. \<exists>rest. trim (textContent q) = pat @ rest)) \<and>
           findDivision_proto current pstep = Inr p"
    unfolding text_matches_iff by blast
qed

text \<open>Witness for C5: the marker II in the four-paragraph document, for both navigators.\<close>

theorem division_first_match_witness:
  "(num step_II = Some ''II'' \<and> ''II'' \<noteq> [] \<and>
      (\<exists>p\<in>set (find_p [scenario_document]). \<exists>pat\<in>set (getDivisionPatterns ''II'').
         \<exists>rest. trim (textContent p) = pat @ rest)) \<and>
   (\<exists>p\<in>set (querySelectorAll_p scenario_document).
        \<exists>pat\<in>set (getDivisionPatterns_proto (step_identifier pstep_II)).
          \<exists>rest. trim (textContent p) = pat @ rest) \<and>
   (\<exists>p. findDivision [scenario_document] step_II = Inr [p]) \<and>
   (\<exists>p. findDivision_proto scenario_document pstep_II = Inr p)"
proof -
  have m1: "list_ex (text_matches (getDivisionPatterns ''II'')) (find_p [scenario_document])"
    by (simp add: scenario_document_def nav_defs)
  have m2: "list_ex (text_matches (getDivisionPatterns_proto (step_identifier pstep_II)))
              (querySelectorAll_p scenario_document)"
    by (simp add: scenario_document_def pstep_II_def getDivisionPatterns_proto_def falsy_def
        String_def nav_defs)
  have h1: "num step_II = Some ''II'' \<and> ''II'' \<noteq> [] \<and>
      (\<exists>p\<in>set (find_p [scenario_document]). \<exists>pat\<in>set (getDivisionPatterns ''II'').
         \<exists>rest. trim (textContent p) = pat @ rest)"
    using m1 unfolding list_ex_iff text_matches_iff by (simp add: step_II_def empty_step_def)
  have h2: "\<exists>p\<in>set (querySelectorAll_p scenario_document).
        \<exists>pat\<in>set (getDivisionPatterns_proto (step_identifier pstep_II)).
          \<exists>rest. trim (textContent p) = pat @ rest"
    using m2 unfolding list_ex_iff text_matches_iff .
  from division_first_match
         [of step_II "''II''" "[scenario_document]" scenario_document pstep_II] h1 h2
  show ?thesis by blast
qed

section \<open>The two derivations of surface forms\<close>

text \<open>
  Claim C10 as stated fails: for the marker II the first navigator accepts the form
  \<open>II)\<close>, which the second does not derive.
\<close>

theorem division_patterns_differ:
  "set (getDivisionPatterns ''II'') \<noteq> set (getDivisionPatterns_proto (Some (IdString ''II'')))"
proof
  assume eq: "set (getDivisionPatterns ''II'') =
    set (getDivisionPatterns_proto (Some (IdString ''II'')))"
  have "''II)'' \<in> set (getDivisionPatterns ''II'')"
    by (simp add: getDivisionPatterns_def)
  moreover have "''II)'' \<notin> set (getDivisionPatterns_proto (Some (IdString ''II'')))"
    by (simp add: getDivisionPatterns_proto_def falsy_def String_def)
  ultimately show False using eq by simp
qed

text \<open>
  Claim C10, amended: for every marker that is not falsy (not the empty string, not 0), the
  patterns of the first navigator are those of the second, in the same order, followed by
  one more form, the marker with a closing parenthesis, which the second never derives.
\<close>

theorem division_patterns_related:
  "\<not> falsy (Some ident) \<Longrightarrow>
     getDivisionPatterns (String ident) =
       getDivisionPatterns_proto (Some ident) @ [String ident @ '')''] \<and>
     String ident @ '')'' \<notin> set (getDivisionPatterns_proto (Some ident))"
  by (simp add: getDivisionPatterns_def getDivisionPatterns_proto_def Let_def)

text \<open>Witness for C10: the marker II.\<close>

theorem division_patterns_related_witness:
  "\<not> falsy (Some (IdString ''II'')) \<and>
   getDivisionPatterns ''II'' = getDivisionPatterns_proto (Some (IdString ''II'')) @ [''II)'']"
  using division_patterns_related [of "IdString ''II''"]
  by (simp add: falsy_def String_def)

section \<open>Enumerations and intervals\<close>

text \<open>
  Claim C6 as stated fails: compiling the enumeration "I et II" gives the step of its first
  member and nothing else. The compiled path has the single field \<open>steps\<close>, and nothing
  is written to the console either: no warning marks the resolution as partial.
\<close>

theorem enumeration_without_warning:
  "walkReference_proto enumeration_I_II \<lparr>steps = [], console = []\<rparr> =
     \<lparr>steps = [\<lparr>proto_type = P_division, step_identifier = Some (IdString ''I''),
                 ordinal = None, relative = None\<rparr>],
      console = []\<rparr>"
  by (simp add: enumeration_I_II_def is_division_type_proto_def push_step_def)

text \<open>
  Claim C6, amended: compiling an enumeration, a bounded interval or a counted interval
  never fails and gives exactly what compiling its first member gives: the same steps and
  the same console output, so no warning is added for the members left out.
\<close>

theorem first_member_only:
  "walkReference_proto (Enumeration member other) st = walkReference_proto member st \<and>
   walkReference_proto (BoundedInterval member other) st = walkReference_proto member st \<and>
   walkReference_proto (CountedInterval member n) st = walkReference_proto member st \<and>
   convertAstToNavigationPath (Enumeration member other) = convertAstToNavigationPath member \<and>
   convertAstToNavigationPath (BoundedInterval member other) = convertAstToNavigationPath member \<and>
   convertAstToNavigationPath (CountedInterval member n) = convertAstToNavigationPath member"
  by (simp add: convertAstToNavigationPath_def)

section \<open>Navigation failures\<close>





section \<open>Batch extraction, block by block\<close>

text \<open>
  Claim C4 as stated fails: the extractor of article-navigator.ts returns no record for a
  block without an article link, and the extractor of the strategy note returns no record
  for a block that does not parse.
\<close>

theorem batch_drops_blocks:
  "extractModificationsFromProject (\<lambda>t. None) (\<lambda>t. None) [item_without_link] = [] \<and>
   extractModificationsFromProject_strategy (\<lambda>t. None :: unit option) [item_with_link] = []"
  by (simp add: extractModificationsFromProject_def extractModificationsFromProject_strategy_def
      item_without_link_def item_with_link_def)

text \<open>
  Claim C4, amended: each extractor returns one record per block that passes its guard, in
  the original order, and every field of a record is computed from its own block and its
  original index alone. The extractor of article-navigator.ts keeps the blocks with an
  article link; a block that does not parse keeps its record, with \<open>ast\<close> undefined. The
  extractor of the getting-started guide keeps every block, again with \<open>ast\<close> undefined
  for a failed parse. The extractor of the strategy note keeps only the blocks that parse.
  The theorem gives every field of every record of the three extractors.
\<close>

theorem batch_extraction_results:
  "map rawText (extractModificationsFromProject rp ap items) =
     map item_text (filter (\<lambda>it. item_link it \<noteq> None) items) \<and>
   map ast (extractModificationsFromProject rp ap items) =
     map (\<lambda>it. parseModification rp ap (item_text it))
       (filter (\<lambda>it. item_link it \<noteq> None) items) \<and>
   map articleId (extractModificationsFromProject rp ap items) =
     map (\<lambda>it. extractArticleId (href (the (item_link it))))
       (filter (\<lambda>it. item_link it \<noteq> None) items) \<and>
   map articleTitle (extractModificationsFromProject rp ap items) =
     map (\<lambda>it. link_text (the (item_link it))) (filter (\<lambda>it. item_link it \<noteq> None) items) \<and>
   map block_id (extractModificationsFromProject rp ap items) =
     map (\<lambda>(i, it). ''mod-'' @ string_of_nat i)
       (filter (\<lambda>(i, it). item_link it \<noteq> None) (zip [0..<length items] items)) \<and>
   map guide_rawText (extractModificationsFromProject_guide m items) = map item_text items \<and>
   map guide_ast (extractModificationsFromProject_guide m items) =
     map (\<lambda>it. m (item_text it)) items \<and>
   map guide_id (extractModificationsFromProject_guide m items) =
     map (\<lambda>i. ''mod-'' @ string_of_nat i) [0..<length items] \<and>
   map guide_articleId (extractModificationsFromProject_guide m items) =
     map (\<lambda>it. extractArticleId (case item_link it of None \<Rightarrow> None | Some l \<Rightarrow> href l)) items \<and>
   map strategy_rawText (extractModificationsFromProject_strategy m items) =
     map item_text (filter (\<lambda>it. m (item_text it) \<noteq> None) items) \<and>
   map strategy_ast (extractModificationsFromProject_strategy m items) =
     map (\<lambda>it. the (m (item_text it))) (filter (\<lambda>it. m (item_text it) \<noteq> None) items) \<and>
   map strategy_id (extractModificationsFromProject_strategy m items) =
     map (\<lambda>(i, it). ''mod-'' @ string_of_nat i)
       (filter (\<lambda>(i, it). m (item_text it) \<noteq> None) (zip [0..<length items] items))"
  using forEach_item_fields [of "parseModification rp ap" 0 items "[]"]
        forEach_item_ids [of "parseModification rp ap" 0 items "[]"]
        each_guide_fields [of m 0 items "[]"]
        each_guide_ids [of m 0 items "[]"]
        forEach_strategy_fields [of m 0 items "[]"]
        forEach_strategy_ids [of m 0 items "[]"]
  by (simp add: extractModificationsFromProject_def extractModificationsFromProject_guide_def
      extractModificationsFromProject_strategy_def)

section \<open>Ordinals\<close>

text \<open>
  Claim C8: "dernier" normalises to -1, "second" and "seconde" to 2, "premier" to 1, whatever
  surrounds the word. The compiled steps keep these 1-based values: the first navigator
  copies every index of the AST unchanged into its step, and the second compiles no ordinal
  at all. The conversion to an offset is left to the navigators.
\<close>

theorem ordinals_one_based:
  "normalizeOrdinal ''dernier'' = Some (- 1) \<and>
   normalizeOrdinal ''second'' = Some 2 \<and>
   normalizeOrdinal ''seconde'' = Some 2 \<and>
   normalizeOrdinal ''premier'' = Some 1 \<and>
   (extractNavigationPath ref = Inr path \<longrightarrow> map index path = ast_indexes ref) \<and>
   list_all (\<lambda>s. ordinal s = None) (convertAstToNavigationPath ref)"
proof -
  have "extractNavigationPath ref = Inr path \<longrightarrow> map index path = ast_indexes ref"
    using walkReference_indexes [of ref "[]" path] by (simp add: extractNavigationPath_def)
  moreover have "list_all (\<lambda>s. ordinal s = None) (convertAstToNavigationPath ref)"
    using walkReference_proto_ordinal [of "\<lparr>steps = [], console = []\<rparr>" ref]
    by (simp add: convertAstToNavigationPath_def)
  ultimately show ?thesis by (simp add: normalizeOrdinal_def)
qed

text \<open>Witness for C8: "dernier alinea du II".\<close>

theorem ordinals_one_based_witness:
  "extractNavigationPath reference_II_dernier =
     Inr [step_II, (empty_step T_portion)\<lparr>portionType := Some R_alinea, index := Some (- 1),
                     num := Some ''dernier''\<rparr>] \<and>
   map index [step_II, (empty_step T_portion)\<lparr>portionType := Some R_alinea, index := Some (- 1),
                         num := Some ''dernier''\<rparr>] = [Some 2, normalizeOrdinal ''dernier'']"
proof -
  have h: "extractNavigationPath reference_II_dernier =
     Inr [step_II, (empty_step T_portion)\<lparr>portionType := Some R_alinea, index := Some (- 1),
                     num := Some ''dernier''\<rparr>]"
    by (simp add: reference_II_dernier_def step_II_def nav_defs)
  from ordinals_one_based [of reference_II_dernier
      "[step_II, (empty_step T_portion)\<lparr>portionType := Some R_alinea, index := Some (- 1),
                   num := Some ''dernier''\<rparr>]"] h
  show ?thesis by (simp add: reference_II_dernier_def is_division_type_def)
qed

section \<open>Positions\<close>




end
